theory Spec2Isabelle
  imports Main
begin

section \<open>Values, errors and observable effects\<close>

text \<open>
  The controller of \<^verbatim>\<open>src/salte-auth.js\<close> is embedded as functions on an explicit state.
  JavaScript values that travel through promises and events are the constructors of
  \<open>jsval\<close>; thrown values and rejection reasons are \<open>jsval\<close>s as well (usually \<open>Err\<close>).
\<close>

datatype error =
    ReferenceError string
  | TypeError string
  | ValidationError nat
  | TransportError nat
  | Thrown nat

datatype jsval =
    Undefined
  | Null
  | Code nat
  | UserInfo nat int
  | AccessToken nat
  | Err error
  | Controller

text \<open>
  The three closures that the constructor registers with \<open>on\<close> are listeners of their own;
  a listener of the host application is \<open>UserFn i t\<close>: the function with identity \<open>i\<close>,
  which returns normally when \<open>t = None\<close> and throws \<open>e\<close> when \<open>t = Some e\<close>. Application
  listeners that call back into the controller are outside this model.
\<close>

datatype listener =
    OnLoginRenew
  | OnRefreshRenew
  | OnLogoutCancel
  | UserFn nat "jsval option"

text \<open>The second argument of \<open>on\<close>/\<open>off\<close>: a function, or a value whose \<open>typeof\<close> is not \<open>'function'\<close>.\<close>

datatype callback = Fn listener | NotFn jsval

datatype url =
    LoginUrl bool nat nat
  | AccessTokenUrl nat nat
  | DeauthorizeUrl
  | Href string

datatype effect =
    CreateIframe nat url "bool option" "int option"
  | OpenPopup nat url
  | OpenNewTab nat url
  | Navigate url
  | Broadcast string jsval jsval
  | Called listener jsval jsval
  | ConsoleError jsval
  | ConsoleWarn
  | RemoveIframe
  | RedirectLoginCallback jsval

section \<open>The session profile\<close>

text \<open>
  Modelled from the spec: \<^verbatim>\<open>salte-auth.profile.js\<close> is not among the sources. The profile
  holds the credentials (present or absent), the correlation values and the return URL
  (spec section 3). \<open>userInfo\<close> is the decoded id token: a subject and its \<open>exp\<close> claim in
  seconds. \<open>verr\<close> and \<open>verrRefresh\<close> stand for what \<^verbatim>\<open>$validate()\<close> and
  \<^verbatim>\<open>$validate(true)\<close> answer on these contents; \<open>action\<close> for what \<^verbatim>\<open>$actions\<close> has stored.
\<close>

record profile =
  userInfo :: "(nat \<times> int) option"
  accessToken :: "nat option"
  accessExp :: int
  code :: "nat option"
  localState :: "nat option"
  nonce :: "nat option"
  redirectUrl :: "string option"
  perror :: "jsval option"
  verr :: "jsval option"
  verrRefresh :: "jsval option"
  action :: "string option"

text \<open>Modelled from the spec: the profile is "created empty" and "cleared entirely" by \<^verbatim>\<open>$clear\<close>.\<close>

definition empty_profile :: profile where
  "empty_profile = \<lparr> userInfo = None, accessToken = None, accessExp = 0, code = None,
     localState = None, nonce = None, redirectUrl = None, perror = None,
     verr = None, verrRefresh = None, action = None \<rparr>"

definition profile_clear :: "profile \<Rightarrow> profile" where
  "profile_clear p = empty_profile"

text \<open>Modelled from the spec: \<^verbatim>\<open>$clearErrors\<close> clears "partially (errors only)".\<close>

definition profile_clearErrors :: "profile \<Rightarrow> profile" where
  "profile_clearErrors p = p\<lparr> perror := None \<rparr>"

text \<open>
  Modelled from the spec: the expiry predicates are "booleans from comparing an embedded
  expiration claim to current time"; an absent token counts as expired.
\<close>

definition idTokenExpired :: "profile \<Rightarrow> int \<Rightarrow> bool" where
  "idTokenExpired p t = (case userInfo p of None \<Rightarrow> True | Some (u, e) \<Rightarrow> e * 1000 \<le> t)"

definition accessTokenExpired :: "profile \<Rightarrow> int \<Rightarrow> bool" where
  "accessTokenExpired p t = (case accessToken p of None \<Rightarrow> True | Some a \<Rightarrow> accessExp p \<le> t)"

text \<open>
  Modelled from the spec: \<^verbatim>\<open>$validate(isRefresh)\<close> answers a validation error or nothing, and
  is more tolerant on a refresh; the checks themselves are in the absent profile module.
\<close>

definition validate :: "bool \<Rightarrow> profile \<Rightarrow> jsval option" where
  "validate rfr p = (if rfr then verrRefresh p else verr p)"

text \<open>\<^verbatim>\<open>this.profile.code || this.profile.userInfo\<close>\<close>

definition response_of :: "profile \<Rightarrow> jsval" where
  "response_of p = (case code p of Some c \<Rightarrow> Code c
     | None \<Rightarrow> (case userInfo p of Some (u, e) \<Rightarrow> UserInfo u e | None \<Rightarrow> Null))"

definition accessToken_of :: "profile \<Rightarrow> jsval" where
  "accessToken_of p = (case accessToken p of Some a \<Rightarrow> AccessToken a | None \<Rightarrow> Undefined)"

section \<open>Configuration and controller state\<close>

datatype login_type = LIframe | LRedirect | LFalse | LOther string

text \<open>
  The optional settings of a configuration object, \<open>None\<close> where the property is absent;
  a provider brings such an object as its \<^verbatim>\<open>defaultConfig\<close>. The \<^verbatim>\<open>provider\<close> property is
  absent, the name of a provider, or a provider object of the application.
\<close>

record cfg_defaults =
  d_loginType :: "login_type option"
  d_autoRefresh :: "bool option"
  d_autoRefreshBuffer :: "int option"

datatype provider_cfg = NoProvider | Named string | Custom cfg_defaults

record config =
  provider :: provider_cfg
  responseType :: string
  loginType :: login_type
  autoRefresh :: bool
  autoRefreshBuffer :: int
  redirectLoginCallback :: bool

text \<open>
  A promise is a number; \<open>pstates\<close> gives its state, \<open>reactions\<close> the callbacks waiting on
  it in registration order, and \<open>transport\<close> marks the promises whose resolving functions
  a transport primitive (\<^verbatim>\<open>createIframe\<close>, \<^verbatim>\<open>openPopup\<close>, \<^verbatim>\<open>openNewTab\<close>) holds: only those can be
  settled from outside. Every callback that the source passes to \<^verbatim>\<open>then\<close> or \<^verbatim>\<open>catch\<close> is a
  constructor of \<open>handler\<close>, named after the method that creates it.
\<close>

datatype pstate = Pending | Fulfilled jsval | Rejected jsval

datatype handler =
    LoginIframeThen bool
  | LoginWindowThen
  | LoginCatch bool
  | LogoutThen
  | LogoutCatch
  | RefreshThen
  | RefreshCatch
  | ConsoleErrorCatch
  | TokenThen
  | AccessThen
  | TokenDone
  | TokenFail
  | VisibilityThen

datatype reaction = Then handler nat | Catch handler nat | Resolve nat

datatype job = ReactionJob reaction pstate | ThenableJob nat nat

datatype outcome = Return jsval | ReturnPromise nat | Throw jsval

text \<open>A timer handle as stored in \<^verbatim>\<open>$timeouts\<close>: never assigned, \<^verbatim>\<open>null\<close>, or a timer id.\<close>

datatype handle = HUndefined | HNull | HId nat

datatype timer_action = RefreshTick | ExpiredTick | RouteChangedTick | RedirectLanding "jsval option"

record state =
  cfg :: config
  p_login :: "nat option"
  p_logout :: "nat option"
  p_refresh :: "nat option"
  p_token :: "nat option"
  t_refresh :: handle
  t_expired :: handle
  listeners :: "string \<Rightarrow> listener list"
  prof :: profile
  now :: int
  href :: string
  hidden :: bool
  routeSecure :: bool
  uuid :: nat
  pstates :: "nat \<Rightarrow> pstate"
  reactions :: "nat \<Rightarrow> reaction list"
  transport :: "nat \<Rightarrow> bool"
  next_promise :: nat
  queue :: "job list"
  timers :: "nat \<Rightarrow> (int \<times> timer_action) option"
  next_timer :: nat
  trace :: "effect list"

definition log :: "effect \<Rightarrow> state \<Rightarrow> state" where
  "log e s = s\<lparr> trace := trace s @ [e] \<rparr>"

definition truthy :: "jsval \<Rightarrow> bool" where
  "truthy v = (case v of Undefined \<Rightarrow> False | Null \<Rightarrow> False | _ \<Rightarrow> True)"

subsection \<open>Timers\<close>

definition setTimeout :: "timer_action \<Rightarrow> int \<Rightarrow> state \<Rightarrow> nat \<times> state" where
  "setTimeout a d s =
     (next_timer s, s\<lparr> timers := (timers s)(next_timer s \<mapsto> (d, a)), next_timer := Suc (next_timer s) \<rparr>)"

definition clearTimeout :: "handle \<Rightarrow> state \<Rightarrow> state" where
  "clearTimeout h s = (case h of HId i \<Rightarrow> s\<lparr> timers := (timers s)(i := None) \<rparr> | _ \<Rightarrow> s)"

text \<open>
  \<^verbatim>\<open>$$refreshToken()\<close>: the result is the value thrown, if any (\<^verbatim>\<open>userInfo\<close> is \<^verbatim>\<open>null\<close> without
  an id token, and reading \<^verbatim>\<open>.exp\<close> of it is a TypeError, after the old timers are cleared).
\<close>

definition dd_refreshToken :: "state \<Rightarrow> jsval option \<times> state" where
  "dd_refreshToken s =
     (let s1 = (if t_refresh s \<noteq> HUndefined then clearTimeout (t_refresh s) s else s);
          s2 = (if t_expired s1 \<noteq> HUndefined then clearTimeout (t_expired s1) s1 else s1)
      in case userInfo (prof s2) of
           None \<Rightarrow> (Some (Err (TypeError ''Cannot read property exp of null'')), s2)
         | Some (u, e) \<Rightarrow>
            (let timeToExpiration = e * 1000 - now s2;
                 (i, s3) = setTimeout RefreshTick
                             (max (timeToExpiration - autoRefreshBuffer (cfg s2)) 0) s2;
                 s4 = s3\<lparr> t_refresh := HId i \<rparr>;
                 (j, s5) = setTimeout ExpiredTick (max timeToExpiration 0) s4
             in (None, s5\<lparr> t_expired := HId j \<rparr>)))"

section \<open>The event bus\<close>

definition event_types :: "string list" where
  "event_types = [''login'', ''logout'', ''refresh'', ''expired'']"

text \<open>\<^verbatim>\<open>Array.prototype.indexOf\<close>: the first position of the element, or \<open>-1\<close>.\<close>

fun indexOf :: "'a list \<Rightarrow> 'a \<Rightarrow> int" where
  "indexOf [] x = -1"
| "indexOf (y # ys) x = (if y = x then 0 else (let i = indexOf ys x in if i < 0 then -1 else i + 1))"

text \<open>
  \<^verbatim>\<open>Array.prototype.splice(start, deleteCount)\<close> without inserted items: a negative start
  counts from the end, and both arguments are clamped to the array.
\<close>

definition splice_arr :: "'a list \<Rightarrow> int \<Rightarrow> int \<Rightarrow> 'a list" where
  "splice_arr xs start deleteCount =
     (let len = int (length xs);
          actualStart = (if start < 0 then max (len + start) 0 else min start len);
          actualDeleteCount = min (max deleteCount 0) (len - actualStart)
      in take (nat actualStart) xs @ drop (nat (actualStart + actualDeleteCount)) xs)"

definition check_event :: "string \<Rightarrow> callback \<Rightarrow> error option" where
  "check_event eventType callback =
     (if indexOf event_types eventType = -1
        then Some (ReferenceError (''Unknown Event Type ('' @ eventType @ '')''))
      else case callback of
             NotFn v \<Rightarrow> Some (ReferenceError ''Invalid callback provided!'')
           | Fn l \<Rightarrow> None)"

definition on :: "string \<Rightarrow> callback \<Rightarrow> state \<Rightarrow> error + state" where
  "on eventType callback s =
     (case check_event eventType callback of
        Some e \<Rightarrow> Inl e
      | None \<Rightarrow> (case callback of
          Fn l \<Rightarrow> Inr (s\<lparr> listeners := (listeners s)(eventType := listeners s eventType @ [l]) \<rparr>)
        | NotFn v \<Rightarrow> Inr s))"

definition off :: "string \<Rightarrow> callback \<Rightarrow> state \<Rightarrow> error + state" where
  "off eventType callback s =
     (case check_event eventType callback of
        Some e \<Rightarrow> Inl e
      | None \<Rightarrow> (case callback of
          Fn l \<Rightarrow>
            (let eventListeners = listeners s eventType in
             if eventListeners = [] then Inr s
             else Inr (s\<lparr> listeners := (listeners s)
                        (eventType := splice_arr eventListeners (indexOf eventListeners l) 1) \<rparr>))
        | NotFn v \<Rightarrow> Inr s))"

text \<open>
  One call \<open>listener(error, data)\<close>. The result is the value the listener throws, if any.
  The constructor's closures: after \<open>login\<close> and \<open>refresh\<close>, re-arm the timers unless there
  is an error; after \<open>logout\<close>, \<^verbatim>\<open>clearTimeout(this.$timeouts.refresh)\<close>.
\<close>

fun call_listener :: "listener \<Rightarrow> jsval \<Rightarrow> jsval \<Rightarrow> state \<Rightarrow> jsval option \<times> state" where
  "call_listener OnLoginRenew err dat s =
     (if truthy err then (None, log (Called OnLoginRenew err dat) s)
      else dd_refreshToken (log (Called OnLoginRenew err dat) s))"
| "call_listener OnRefreshRenew err dat s =
     (if truthy err then (None, log (Called OnRefreshRenew err dat) s)
      else dd_refreshToken (log (Called OnRefreshRenew err dat) s))"
| "call_listener OnLogoutCancel err dat s =
     (let s1 = log (Called OnLogoutCancel err dat) s in (None, clearTimeout (t_refresh s1) s1))"
| "call_listener (UserFn i t) err dat s = (t, log (Called (UserFn i t) err dat) s)"

text \<open>
  \<^verbatim>\<open>eventListeners.forEach((listener) => listener(error, data))\<close>: there is no \<^verbatim>\<open>try\<close> around
  the call, so the first exception leaves the loop.
\<close>

fun forEach :: "listener list \<Rightarrow> jsval \<Rightarrow> jsval \<Rightarrow> state \<Rightarrow> jsval option \<times> state" where
  "forEach [] err dat s = (None, s)"
| "forEach (l # ls) err dat s =
     (case call_listener l err dat s of
        (Some e, s1) \<Rightarrow> (Some e, s1)
      | (None, s1) \<Rightarrow> forEach ls err dat s1)"

text \<open>\<^verbatim>\<open>$fire(eventType, error, data)\<close>: the window event first, then the listeners.\<close>

definition d_fire :: "string \<Rightarrow> jsval \<Rightarrow> jsval \<Rightarrow> state \<Rightarrow> jsval option \<times> state" where
  "d_fire eventType err dat s =
     (let s1 = log (Broadcast (''salte-auth-'' @ eventType) err dat) s;
          eventListeners = listeners s1 eventType
      in if eventListeners = [] then (None, s1) else forEach eventListeners err dat s1)"

section \<open>Promises\<close>

definition new_promise :: "pstate \<Rightarrow> state \<Rightarrow> nat \<times> state" where
  "new_promise st s =
     (next_promise s,
      s\<lparr> pstates := (pstates s)(next_promise s := st),
         reactions := (reactions s)(next_promise s := []),
         transport := (transport s)(next_promise s := False),
         next_promise := Suc (next_promise s) \<rparr>)"

text \<open>A reaction on a pending promise waits; on a settled one it is queued as a microtask.\<close>

definition add_reaction :: "nat \<Rightarrow> reaction \<Rightarrow> state \<Rightarrow> state" where
  "add_reaction p r s =
     (case pstates s p of
        Pending \<Rightarrow> s\<lparr> reactions := (reactions s)(p := reactions s p @ [r]) \<rparr>
      | st \<Rightarrow> s\<lparr> queue := queue s @ [ReactionJob r st] \<rparr>)"

definition p_then :: "nat \<Rightarrow> handler \<Rightarrow> state \<Rightarrow> nat \<times> state" where
  "p_then p h s = (let (q, s1) = new_promise Pending s in (q, add_reaction p (Then h q) s1))"

definition p_catch :: "nat \<Rightarrow> handler \<Rightarrow> state \<Rightarrow> nat \<times> state" where
  "p_catch p h s = (let (q, s1) = new_promise Pending s in (q, add_reaction p (Catch h q) s1))"

text \<open>Settling a promise queues its reactions in order; a settled promise stays as it is.\<close>

definition settle :: "nat \<Rightarrow> pstate \<Rightarrow> state \<Rightarrow> state" where
  "settle q st s =
     (if pstates s q \<noteq> Pending \<or> st = Pending then s
      else s\<lparr> pstates := (pstates s)(q := st),
              queue := queue s @ map (\<lambda>r. ReactionJob r st) (reactions s q),
              reactions := (reactions s)(q := []) \<rparr>)"

definition resolve_with :: "nat \<Rightarrow> outcome \<Rightarrow> state \<Rightarrow> state" where
  "resolve_with q out s =
     (case out of
        Return v \<Rightarrow> settle q (Fulfilled v) s
      | Throw e \<Rightarrow> settle q (Rejected e) s
      | ReturnPromise r \<Rightarrow> s\<lparr> queue := queue s @ [ThenableJob q r] \<rparr>)"

text \<open>\<^verbatim>\<open>return Promise.reject(error)\<close> inside a callback.\<close>

definition promise_reject :: "jsval \<Rightarrow> state \<Rightarrow> outcome \<times> state" where
  "promise_reject e s = (let (r, s1) = new_promise (Rejected e) s in (ReturnPromise r, s1))"

section \<open>Transports and URLs\<close>

text \<open>
  Modelled from the spec: the transport primitives of \<^verbatim>\<open>salte-auth.utilities.js\<close> are not
  among the sources. Each is "given a URL and returning/resolving raw response parameters
  or rejecting on timeout/closure": a call is recorded in the trace and answers a fresh
  pending promise that only the environment settles. \<^verbatim>\<open>uuid.v4()\<close> is a counter of fresh
  values, and the URLs that \<^verbatim>\<open>createUrl\<close> and the provider would build are kept symbolic.
\<close>

definition createIframe :: "url \<Rightarrow> bool option \<Rightarrow> int option \<Rightarrow> state \<Rightarrow> nat \<times> state" where
  "createIframe u visible tmo s =
     (let (p, s1) = new_promise Pending s
      in (p, log (CreateIframe p u visible tmo) (s1\<lparr> transport := (transport s1)(p := True) \<rparr>)))"

definition openPopup :: "url \<Rightarrow> state \<Rightarrow> nat \<times> state" where
  "openPopup u s =
     (let (p, s1) = new_promise Pending s
      in (p, log (OpenPopup p u) (s1\<lparr> transport := (transport s1)(p := True) \<rparr>)))"

definition openNewTab :: "url \<Rightarrow> state \<Rightarrow> nat \<times> state" where
  "openNewTab u s =
     (let (p, s1) = new_promise Pending s
      in (p, log (OpenNewTab p u) (s1\<lparr> transport := (transport s1)(p := True) \<rparr>)))"

definition navigate :: "url \<Rightarrow> state \<Rightarrow> state" where
  "navigate u s = log (Navigate u) s"

definition rotate :: "state \<Rightarrow> state" where
  "rotate s = s\<lparr> prof := (prof s)\<lparr> localState := Some (uuid s), nonce := Some (Suc (uuid s)) \<rparr>,
                uuid := uuid s + 2 \<rparr>"

definition d_loginUrl :: "bool \<Rightarrow> state \<Rightarrow> url \<times> state" where
  "d_loginUrl rfr s = (LoginUrl rfr (uuid s) (Suc (uuid s)), rotate s)"

definition d_accessTokenUrl :: "state \<Rightarrow> url \<times> state" where
  "d_accessTokenUrl s = (AccessTokenUrl (uuid s) (Suc (uuid s)), rotate s)"

section \<open>Login, logout, refresh\<close>

text \<open>
  The state holds the configuration as the constructor left it, after the getter
  \<^verbatim>\<open>$provider\<close> has succeeded on it; nothing in the controller writes the provider
  afterwards, so the later reads of \<^verbatim>\<open>$provider\<close> in the URL getters do not throw.
\<close>

datatype clear_mode = ClearAll | ClearErrors | ClearNone

record login_config =
  noPrompt :: "bool option"
  clear :: "clear_mode option"
  events :: "bool option"
  timeout :: "int option"

datatype login_arg = ArgUndefined | ArgBool bool | ArgConfig login_config

text \<open>
  The argument of \<^verbatim>\<open>loginWithIframe\<close> after the boolean compatibility branch and
  \<^verbatim>\<open>defaultsDeep(config, {noPrompt: false, clear: 'all', events: true})\<close>.
\<close>

definition login_defaults :: "login_arg \<Rightarrow> bool \<times> clear_mode \<times> bool \<times> int option" where
  "login_defaults a =
     (let c = (case a of
                 ArgBool b \<Rightarrow> \<lparr> noPrompt = Some b, clear = (if b then Some ClearErrors else None),
                                events = Some False, timeout = Some 3000 \<rparr>
               | ArgConfig c \<Rightarrow> c
               | ArgUndefined \<Rightarrow> \<lparr> noPrompt = None, clear = None, events = None, timeout = None \<rparr>)
      in (case noPrompt c of None \<Rightarrow> False | Some b \<Rightarrow> b,
          case clear c of None \<Rightarrow> ClearAll | Some m \<Rightarrow> m,
          case events c of None \<Rightarrow> True | Some b \<Rightarrow> b,
          timeout c))"

definition loginWithIframe :: "login_arg \<Rightarrow> state \<Rightarrow> nat \<times> state" where
  "loginWithIframe a s =
     (case p_login s of
        Some p \<Rightarrow> (p, s)
      | None \<Rightarrow>
         (let (np, cm, ev, tmo) = login_defaults a;
              s1 = (case cm of
                      ClearAll \<Rightarrow> s\<lparr> prof := profile_clear (prof s) \<rparr>
                    | ClearErrors \<Rightarrow> s\<lparr> prof := profile_clearErrors (prof s) \<rparr>
                    | ClearNone \<Rightarrow> s);
              (u, s2) = d_loginUrl np s1;
              (t, s3) = createIframe u (Some (\<not> np)) tmo s2;
              (q1, s4) = p_then t (LoginIframeThen ev) s3;
              (q2, s5) = p_catch q1 (LoginCatch ev) s4
          in (q2, s5\<lparr> p_login := Some q2 \<rparr>)))"

definition loginWithPopup :: "state \<Rightarrow> nat \<times> state" where
  "loginWithPopup s =
     (case p_login s of
        Some p \<Rightarrow> (p, s)
      | None \<Rightarrow>
         (let s1 = s\<lparr> prof := profile_clear (prof s) \<rparr>;
              (u, s2) = d_loginUrl False s1;
              (t, s3) = openPopup u s2;
              (q1, s4) = p_then t LoginWindowThen s3;
              (q2, s5) = p_catch q1 (LoginCatch True) s4
          in (q2, s5\<lparr> p_login := Some q2 \<rparr>)))"

definition loginWithNewTab :: "state \<Rightarrow> nat \<times> state" where
  "loginWithNewTab s =
     (case p_login s of
        Some p \<Rightarrow> (p, s)
      | None \<Rightarrow>
         (let s1 = s\<lparr> prof := profile_clear (prof s) \<rparr>;
              (u, s2) = d_loginUrl False s1;
              (t, s3) = openNewTab u s2;
              (q1, s4) = p_then t LoginWindowThen s3;
              (q2, s5) = p_catch q1 (LoginCatch True) s4
          in (q2, s5\<lparr> p_login := Some q2 \<rparr>)))"

text \<open>
  \<^verbatim>\<open>loginWithRedirect(redirectUrl)\<close>. \<^verbatim>\<open>new Promise(() => {})\<close> is a pending promise whose
  resolving functions nobody holds: it is not a transport promise. An absent or empty
  \<open>redirectUrl\<close> is falsy; \<^verbatim>\<open>resolveUrl\<close> (of the utilities) is taken to answer its argument.
\<close>

definition loginWithRedirect :: "string option \<Rightarrow> state \<Rightarrow> nat \<times> state" where
  "loginWithRedirect redirect s =
     (let s0 = (if redirectLoginCallback (cfg s) then log ConsoleWarn s else s) in
      case p_login s0 of
        Some p \<Rightarrow> (p, s0)
      | None \<Rightarrow>
         (let (p, s1) = new_promise Pending s0;
              s2 = s1\<lparr> p_login := Some p \<rparr>;
              s3 = s2\<lparr> prof := profile_clear (prof s2) \<rparr>;
              stored_target = (case redirectUrl (prof s3) of Some r \<Rightarrow> r | None \<Rightarrow> href s3);
              target = (case redirect of
                          Some r \<Rightarrow> (if r = [] then stored_target else r)
                        | None \<Rightarrow> stored_target);
              s4 = s3\<lparr> prof := (prof s3)\<lparr> redirectUrl := Some target \<rparr> \<rparr>;
              (u, s5) = d_loginUrl False s4;
              s6 = s5\<lparr> prof := (prof s5)\<lparr> action := Some ''login'' \<rparr> \<rparr>
          in (p, navigate u s6)))"

definition logoutWithIframe :: "state \<Rightarrow> nat \<times> state" where
  "logoutWithIframe s =
     (case p_logout s of
        Some p \<Rightarrow> (p, s)
      | None \<Rightarrow>
         (let s1 = s\<lparr> prof := profile_clear (prof s) \<rparr>;
              (t, s2) = createIframe DeauthorizeUrl None None s1;
              (q1, s3) = p_then t LogoutThen s2;
              (q2, s4) = p_catch q1 LogoutCatch s3
          in (q2, s4\<lparr> p_logout := Some q2 \<rparr>)))"

definition logoutWithPopup :: "state \<Rightarrow> nat \<times> state" where
  "logoutWithPopup s =
     (case p_logout s of
        Some p \<Rightarrow> (p, s)
      | None \<Rightarrow>
         (let s1 = s\<lparr> prof := profile_clear (prof s) \<rparr>;
              (t, s2) = openPopup DeauthorizeUrl s1;
              (q1, s3) = p_then t LogoutThen s2;
              (q2, s4) = p_catch q1 LogoutCatch s3
          in (q2, s4\<lparr> p_logout := Some q2 \<rparr>)))"

definition logoutWithNewTab :: "state \<Rightarrow> nat \<times> state" where
  "logoutWithNewTab s =
     (case p_logout s of
        Some p \<Rightarrow> (p, s)
      | None \<Rightarrow>
         (let s1 = s\<lparr> prof := profile_clear (prof s) \<rparr>;
              (t, s2) = openNewTab DeauthorizeUrl s1;
              (q1, s3) = p_then t LogoutThen s2;
              (q2, s4) = p_catch q1 LogoutCatch s3
          in (q2, s4\<lparr> p_logout := Some q2 \<rparr>)))"

definition logoutWithRedirect :: "state \<Rightarrow> state" where
  "logoutWithRedirect s =
     (let s1 = s\<lparr> prof := profile_clear (prof s) \<rparr>;
          s2 = s1\<lparr> prof := (prof s1)\<lparr> action := Some ''logout'' \<rparr> \<rparr>
      in navigate DeauthorizeUrl s2)"

definition refreshToken :: "state \<Rightarrow> nat \<times> state" where
  "refreshToken s =
     (case p_refresh s of
        Some p \<Rightarrow> (p, s)
      | None \<Rightarrow>
         (let (l, s1) = loginWithIframe (ArgBool True) s;
              (q1, s2) = p_then l RefreshThen s1;
              (q2, s3) = p_catch q1 RefreshCatch s2
          in (q2, s3\<lparr> p_refresh := Some q2 \<rparr>)))"

section \<open>Token retrieval\<close>

text \<open>
  \<^verbatim>\<open>retrieveAccessToken()\<close> always answers a promise: the two configuration failures are
  \<^verbatim>\<open>return Promise.reject(new ReferenceError(...))\<close>.
\<close>

definition needs_login :: "state \<Rightarrow> bool" where
  "needs_login s =
     ((responseType (cfg s) = ''code'' \<and> code (prof s) = None) \<or>
      (responseType (cfg s) \<noteq> ''code'' \<and> idTokenExpired (prof s) (now s)))"

definition token_chain :: "nat \<Rightarrow> state \<Rightarrow> nat \<times> state" where
  "token_chain p s =
     (let (p1, s1) = (if responseType (cfg s) \<noteq> ''code'' then p_then p TokenThen s else (p, s));
          (p2, s2) = p_then p1 TokenDone s1;
          (p3, s3) = p_catch p2 TokenFail s2
      in (p3, s3\<lparr> p_token := Some p3 \<rparr>))"

definition retrieveAccessToken :: "state \<Rightarrow> nat \<times> state" where
  "retrieveAccessToken s =
     (case p_token s of
        Some p \<Rightarrow> (p, s)
      | None \<Rightarrow>
         (let (p0, s0) = new_promise (Fulfilled Undefined) s;
              s1 = s0\<lparr> p_token := Some p0 \<rparr>
          in if needs_login s1 then
               (case loginType (cfg s1) of
                  LIframe \<Rightarrow>
                    (let (l, s2) = loginWithIframe ArgUndefined s1
                     in token_chain l (s2\<lparr> p_token := Some l \<rparr>))
                | LRedirect \<Rightarrow>
                    (let (l, s2) = loginWithRedirect None s1
                     in token_chain l (s2\<lparr> p_token := Some l \<rparr>))
                | LFalse \<Rightarrow>
                    (case p_login s1 of
                       Some l \<Rightarrow> token_chain l (s1\<lparr> p_token := Some l \<rparr>)
                     | None \<Rightarrow> new_promise
                         (Rejected (Err (ReferenceError
                            ''Automatic login is disabled, please login before making any requests!'')))
                         (s1\<lparr> p_token := None \<rparr>))
                | LOther x \<Rightarrow> new_promise
                    (Rejected (Err (ReferenceError (''Invalid Login Type ('' @ x @ '')''))))
                    (s1\<lparr> p_token := None \<rparr>))
             else token_chain p0 s1))"

section \<open>The callbacks\<close>

text \<open>
  \<open>run_handler h v s\<close> runs the body of the callback \<open>h\<close> on its argument. An exception of
  \<^verbatim>\<open>$fire\<close> leaves the callback where it is raised. \<^verbatim>\<open>$parseParams()\<close> reads what the
  transport stored: here the profile already holds it when the transport settles.
\<close>

definition fire_then :: "string \<Rightarrow> jsval \<Rightarrow> jsval \<Rightarrow> (state \<Rightarrow> outcome \<times> state) \<Rightarrow> state \<Rightarrow> outcome \<times> state" where
  "fire_then k err dat rest s =
     (case d_fire k err dat s of (Some e, s1) \<Rightarrow> (Throw e, s1) | (None, s1) \<Rightarrow> rest s1)"

fun run_handler :: "handler \<Rightarrow> jsval \<Rightarrow> state \<Rightarrow> outcome \<times> state" where
  "run_handler (LoginIframeThen ev) v s =
     (let s1 = s\<lparr> p_login := None \<rparr> in
      case validate False (prof s1) of
        Some e \<Rightarrow> promise_reject e s1
      | None \<Rightarrow>
         (let response = response_of (prof s1) in
          if ev then fire_then ''login'' Null response (\<lambda>s2. (Return response, s2)) s1
          else (Return response, s1)))"
| "run_handler LoginWindowThen v s =
     (let s1 = s\<lparr> p_login := None \<rparr> in
      case validate False (prof s1) of
        Some e \<Rightarrow> promise_reject e (s1\<lparr> prof := profile_clear (prof s1) \<rparr>)
      | None \<Rightarrow>
         (let response = response_of (prof s1) in
          fire_then ''login'' Null response (\<lambda>s2. (Return response, s2)) s1))"
| "run_handler (LoginCatch ev) v s =
     (let s1 = s\<lparr> p_login := None \<rparr> in
      if ev then fire_then ''login'' v Undefined (promise_reject v) s1
      else promise_reject v s1)"
| "run_handler LogoutThen v s =
     fire_then ''logout'' Undefined Undefined (\<lambda>s2. (Return Undefined, s2)) (s\<lparr> p_logout := None \<rparr>)"
| "run_handler LogoutCatch v s =
     fire_then ''logout'' v Undefined (promise_reject v) (s\<lparr> p_logout := None \<rparr>)"
| "run_handler RefreshThen v s =
     (let s1 = s\<lparr> p_refresh := None \<rparr> in
      case validate True (prof s1) of
        Some e \<Rightarrow> promise_reject e s1
      | None \<Rightarrow> fire_then ''refresh'' Null v (\<lambda>s2. (Return v, s2)) (s1\<lparr> p_refresh := None \<rparr>))"
| "run_handler RefreshCatch v s =
     fire_then ''refresh'' v Undefined (promise_reject v) (s\<lparr> p_refresh := None \<rparr>)"
| "run_handler ConsoleErrorCatch v s = (Return Undefined, log (ConsoleError v) s)"
| "run_handler TokenThen v s =
     (let s1 = s\<lparr> prof := profile_clearErrors (prof s) \<rparr> in
      if accessTokenExpired (prof s1) (now s1) then
        (let (u, s2) = d_accessTokenUrl s1;
             (t, s3) = createIframe u None None s2;
             (q, s4) = p_then t AccessThen s3
         in (ReturnPromise q, s4))
      else (Return (accessToken_of (prof s1)), s1))"
| "run_handler AccessThen v s =
     (case validate True (prof s) of
        Some e \<Rightarrow> promise_reject e s
      | None \<Rightarrow> (Return (accessToken_of (prof s)), s))"
| "run_handler TokenDone v s = (Return v, s\<lparr> p_token := None \<rparr>)"
| "run_handler TokenFail v s = promise_reject v (s\<lparr> p_token := None \<rparr>)"
| "run_handler VisibilityThen v s =
     (Return Undefined, (clearTimeout (t_refresh s) s)\<lparr> t_refresh := HNull \<rparr>)"

section \<open>Microtasks, timers and the environment\<close>

fun exec_job :: "job \<Rightarrow> state \<Rightarrow> state" where
  "exec_job (ReactionJob (Then h q) (Fulfilled v)) s =
     (let (out, s1) = run_handler h v s in resolve_with q out s1)"
| "exec_job (ReactionJob (Then h q) (Rejected e)) s = settle q (Rejected e) s"
| "exec_job (ReactionJob (Catch h q) (Fulfilled v)) s = settle q (Fulfilled v) s"
| "exec_job (ReactionJob (Catch h q) (Rejected e)) s =
     (let (out, s1) = run_handler h e s in resolve_with q out s1)"
| "exec_job (ReactionJob (Resolve q) st) s = settle q st s"
| "exec_job (ReactionJob r Pending) s = s"
| "exec_job (ThenableJob q r) s = add_reaction r (Resolve q) s"

text \<open>
  The microtask queue is emptied after every task. \<open>drain n\<close> runs at most \<open>n\<close> jobs and
  answers \<open>None\<close> when jobs are left.
\<close>

fun drain :: "nat \<Rightarrow> state \<Rightarrow> state option" where
  "drain 0 s = (if queue s = [] then Some s else None)"
| "drain (Suc n) s =
     (case queue s of
        [] \<Rightarrow> Some s
      | j # js \<Rightarrow> drain n (exec_job j (s\<lparr> queue := js \<rparr>)))"

text \<open>
  What a transport reports: the provider's answer has arrived (the profile then holds what
  was parsed from it), or the transport failed (timeout, window closed).
\<close>

datatype arrival = Arrived profile | Failed jsval

definition env_settle :: "nat \<Rightarrow> arrival \<Rightarrow> state \<Rightarrow> state" where
  "env_settle t a s =
     (if \<not> transport s t \<or> pstates s t \<noteq> Pending then s
      else case a of
             Arrived pr \<Rightarrow> settle t (Fulfilled Undefined) (s\<lparr> prof := pr \<rparr>)
           | Failed e \<Rightarrow> settle t (Rejected e) s)"

definition dd_onRouteChanged :: "state \<Rightarrow> state" where
  "dd_onRouteChanged s = (if \<not> routeSecure s then s else snd (retrieveAccessToken s))"

definition dd_onVisibilityChanged :: "state \<Rightarrow> jsval option \<times> state" where
  "dd_onVisibilityChanged s =
     (if idTokenExpired (prof s) (now s) \<or> \<not> autoRefresh (cfg s) then (None, s)
      else if hidden s then
        (let (p, s1) = refreshToken s; (q, s2) = p_then p VisibilityThen s1 in (None, s2))
      else dd_refreshToken s)"

text \<open>
  The callbacks given to \<^verbatim>\<open>setTimeout\<close>. The result is the exception that escapes the
  callback, if any. \<open>RedirectLanding error\<close> is the deferred part of the constructor's
  redirect branch.
\<close>

fun run_timer :: "timer_action \<Rightarrow> state \<Rightarrow> jsval option \<times> state" where
  "run_timer RefreshTick s =
     (if autoRefresh (cfg s) then
        (let (p, s1) = refreshToken s; (q, s2) = p_catch p ConsoleErrorCatch s1 in (None, s2))
      else d_fire ''refresh'' Undefined Undefined s)"
| "run_timer ExpiredTick s = d_fire ''expired'' Undefined Undefined s"
| "run_timer RouteChangedTick s = (None, dd_onRouteChanged s)"
| "run_timer (RedirectLanding error) s =
     (let act = action (prof s);
          s1 = (case error of
                  Some e \<Rightarrow> s\<lparr> prof := profile_clear (prof s) \<rparr>
                | None \<Rightarrow>
                   (let s0 = (case redirectUrl (prof s) of
                                Some r \<Rightarrow> navigate (Href r) s | None \<Rightarrow> s)
                    in s0\<lparr> prof := (prof s0)\<lparr> redirectUrl := None \<rparr> \<rparr>));
          err = (case error of Some e \<Rightarrow> e | None \<Rightarrow> Null);
          und = (case error of Some e \<Rightarrow> e | None \<Rightarrow> Undefined);
          (thrown, s2) = (if act = Some ''login'' then d_fire ''login'' err (response_of (prof s1)) s1
                          else if act = Some ''logout'' then d_fire ''logout'' und Undefined s1
                          else (None, s1))
      in case thrown of
           Some e \<Rightarrow> (Some e, s2)
         | None \<Rightarrow> (None, if redirectLoginCallback (cfg s2)
                              then log (RedirectLoginCallback und) s2 else s2))"

definition fire_timer :: "nat \<Rightarrow> state \<Rightarrow> jsval option \<times> state" where
  "fire_timer i s =
     (case timers s i of
        None \<Rightarrow> (None, s)
      | Some (d, a) \<Rightarrow> run_timer a (s\<lparr> timers := (timers s)(i := None) \<rparr>))"

section \<open>The constructor\<close>

record raw_config =
  r_provider :: provider_cfg
  r_responseType :: string
  r_settings :: cfg_defaults
  r_redirectLoginCallback :: bool

text \<open>
  What the constructor finds on the page: the table \<^verbatim>\<open>Providers\<close> (of
  \<^verbatim>\<open>salte-auth.providers.js\<close>, not among the sources, so a parameter), whether the page
  runs inside the login iframe or popup, the location, the stored profile and the clock.
\<close>

record page =
  providers :: "string \<Rightarrow> cfg_defaults option"
  in_iframe :: bool
  in_popup :: bool
  location :: string
  stored :: profile
  clock :: int
  page_hidden :: bool
  page_routeSecure :: bool

text \<open>The getter \<^verbatim>\<open>$provider\<close>.\<close>

definition d_provider :: "(string \<Rightarrow> cfg_defaults option) \<Rightarrow> provider_cfg \<Rightarrow> error + cfg_defaults" where
  "d_provider table pc =
     (case pc of
        NoProvider \<Rightarrow> Inl (ReferenceError ''A provider must be specified'')
      | Named n \<Rightarrow> (case table n of
                      None \<Rightarrow> Inl (ReferenceError (''Unknown Provider ('' @ n @ '')''))
                    | Some d \<Rightarrow> Inr d)
      | Custom d \<Rightarrow> Inr d)"

definition first_of :: "'a option \<Rightarrow> 'a option \<Rightarrow> 'a \<Rightarrow> 'a" where
  "first_of a b c = (case a of Some x \<Rightarrow> x | None \<Rightarrow> (case b of Some y \<Rightarrow> y | None \<Rightarrow> c))"

text \<open>
  \<^verbatim>\<open>defaultsDeep(config, this.$provider.defaultConfig, {loginType: 'iframe', autoRefresh: true,
  autoRefreshBuffer: 60000})\<close>
\<close>

definition merge_config :: "raw_config \<Rightarrow> cfg_defaults \<Rightarrow> config" where
  "merge_config c d =
     \<lparr> provider = r_provider c,
       responseType = r_responseType c,
       loginType = first_of (d_loginType (r_settings c)) (d_loginType d) LIframe,
       autoRefresh = first_of (d_autoRefresh (r_settings c)) (d_autoRefresh d) True,
       autoRefreshBuffer = first_of (d_autoRefreshBuffer (r_settings c)) (d_autoRefreshBuffer d) 60000,
       redirectLoginCallback = r_redirectLoginCallback c \<rparr>"

definition init_state :: "config \<Rightarrow> page \<Rightarrow> state" where
  "init_state c pg =
     \<lparr> cfg = c, p_login = None, p_logout = None, p_refresh = None, p_token = None,
       t_refresh = HUndefined, t_expired = HUndefined, listeners = (\<lambda>k. []),
       prof = stored pg, now = clock pg, href = location pg, hidden = page_hidden pg,
       routeSecure = page_routeSecure pg, uuid = 0,
       pstates = (\<lambda>p. Pending), reactions = (\<lambda>p. []), transport = (\<lambda>p. False),
       next_promise = 0, queue = [], timers = (\<lambda>i. None), next_timer = 0, trace = [] \<rparr>"

text \<open>
  The \<^verbatim>\<open>else\<close> branch of the constructor: route detection, automatic renewal, \<open>create\<close>.
  The two interceptors it installs and the \<open>popstate\<close>, \<open>click\<close> and \<open>visibilitychange\<close>
  listeners do nothing until the page calls them; what they do then is
  \<open>retrieveAccessToken\<close>, \<open>dd_onRouteChanged\<close> and \<open>dd_onVisibilityChanged\<close>.
\<close>

definition on_internal :: "string \<Rightarrow> listener \<Rightarrow> jsval + state \<Rightarrow> jsval + state" where
  "on_internal k l r =
     (case r of
        Inl e \<Rightarrow> Inl e
      | Inr s \<Rightarrow> (case on k (Fn l) s of Inl e \<Rightarrow> Inl (Err e) | Inr s1 \<Rightarrow> Inr s1))"

definition setup_page :: "state \<Rightarrow> jsval + state" where
  "setup_page s =
     (let (i, s1) = setTimeout RouteChangedTick 0 s;
          r = on_internal ''logout'' OnLogoutCancel
                (on_internal ''refresh'' OnRefreshRenew
                  (on_internal ''login'' OnLoginRenew (Inr s1)))
      in case r of
           Inl e \<Rightarrow> Inl e
         | Inr s4 \<Rightarrow>
            (case (if \<not> idTokenExpired (prof s4) (now s4) then dd_refreshToken s4 else (None, s4)) of
               (Some e, s5) \<Rightarrow> Inl e
             | (None, s5) \<Rightarrow>
                (case d_fire ''create'' Null Controller s5 of
                   (Some e, s6) \<Rightarrow> Inl e
                 | (None, s6) \<Rightarrow> Inr s6)))"

text \<open>
  \<^verbatim>\<open>new SalteAuth(config)\<close>, given \<^verbatim>\<open>window.salte.auth\<close>. The result is the exception, or
  the instance that the expression evaluates to together with the new \<^verbatim>\<open>window.salte.auth\<close>.
\<close>

definition construct :: "state option \<Rightarrow> raw_config option \<Rightarrow> page \<Rightarrow> jsval + (state \<times> state option)" where
  "construct existing config pg =
     (case existing of
        Some a \<Rightarrow> Inr (a, Some a)
      | None \<Rightarrow>
         (case config of
            None \<Rightarrow> Inl (Err (ReferenceError ''A config must be provided.''))
          | Some c \<Rightarrow>
             (case d_provider (providers pg) (r_provider c) of
                Inl e \<Rightarrow> Inl (Err e)
              | Inr d \<Rightarrow>
                 (let s = init_state (merge_config c d) pg;
                      r = (if in_iframe pg then Inr (log RemoveIframe s)
                           else if in_popup pg then Inr s
                           else if redirectUrl (prof s) \<noteq> None \<and> Some (href s) \<noteq> redirectUrl (prof s)
                             then Inr (snd (setTimeout (RedirectLanding (validate False (prof s))) 0 s))
                           else setup_page s)
                  in case r of
                       Inl e \<Rightarrow> Inl e
                     | Inr s1 \<Rightarrow>
                        (let s2 = (if redirectLoginCallback (cfg s1) then log ConsoleWarn s1 else s1)
                         in Inr (s2, Some s2))))))"

section \<open>Histories of the page\<close>

text \<open>
  Everything that can happen to the controller during the lifetime of a page, one task or
  one microtask at a time: a call of the public interface, a transport that settles, a
  timer that fires, the next job of the microtask queue, a route or visibility change, the
  clock, and a change of the page or of the stored profile from outside. An exception that
  leaves \<open>on\<close> or \<open>off\<close> leaves the state as it was.
\<close>

datatype action =
    LoginIframe login_arg
  | LoginPopup
  | LoginNewTab
  | LoginRedirect "string option"
  | LogoutIframe
  | LogoutPopup
  | LogoutNewTab
  | LogoutRedirect
  | Refresh
  | Retrieve
  | On string callback
  | Off string callback
  | Settle nat arrival
  | Timer nat
  | Microtask
  | RouteChanged
  | VisibilityChanged
  | Advance int
  | Page string bool bool
  | Storage profile

fun perform :: "action \<Rightarrow> state \<Rightarrow> state" where
  "perform (LoginIframe a) s = snd (loginWithIframe a s)"
| "perform LoginPopup s = snd (loginWithPopup s)"
| "perform LoginNewTab s = snd (loginWithNewTab s)"
| "perform (LoginRedirect r) s = snd (loginWithRedirect r s)"
| "perform LogoutIframe s = snd (logoutWithIframe s)"
| "perform LogoutPopup s = snd (logoutWithPopup s)"
| "perform LogoutNewTab s = snd (logoutWithNewTab s)"
| "perform LogoutRedirect s = logoutWithRedirect s"
| "perform Refresh s = snd (refreshToken s)"
| "perform Retrieve s = snd (retrieveAccessToken s)"
| "perform (On k cb) s = (case on k cb s of Inl e \<Rightarrow> s | Inr s1 \<Rightarrow> s1)"
| "perform (Off k cb) s = (case off k cb s of Inl e \<Rightarrow> s | Inr s1 \<Rightarrow> s1)"
| "perform (Settle t a) s = env_settle t a s"
| "perform (Timer i) s = snd (fire_timer i s)"
| "perform Microtask s = (case queue s of [] \<Rightarrow> s | j # js \<Rightarrow> exec_job j (s\<lparr> queue := js \<rparr>))"
| "perform RouteChanged s = dd_onRouteChanged s"
| "perform VisibilityChanged s = snd (dd_onVisibilityChanged s)"
| "perform (Advance d) s = s\<lparr> now := now s + d \<rparr>"
| "perform (Page h hid sec) s = s\<lparr> href := h, hidden := hid, routeSecure := sec \<rparr>"
| "perform (Storage pr) s = s\<lparr> prof := pr \<rparr>"

fun run :: "action list \<Rightarrow> state \<Rightarrow> state" where
  "run [] s = s"
| "run (a # as) s = run as (perform a s)"

text \<open>
  The callbacks of the login flows, and the reactions and jobs that leave the promise \<open>p\<close>
  and the login category alone: they do not resolve \<open>p\<close> and are no login callback.
\<close>

fun login_handler :: "handler \<Rightarrow> bool" where
  "login_handler (LoginIframeThen ev) = True"
| "login_handler LoginWindowThen = True"
| "login_handler (LoginCatch ev) = True"
| "login_handler h = False"

fun ok_reaction :: "nat \<Rightarrow> reaction \<Rightarrow> bool" where
  "ok_reaction p (Then h q) = (q \<noteq> p \<and> \<not> login_handler h)"
| "ok_reaction p (Catch h q) = (q \<noteq> p \<and> \<not> login_handler h)"
| "ok_reaction p (Resolve q) = (q \<noteq> p)"

fun ok_job :: "nat \<Rightarrow> job \<Rightarrow> bool" where
  "ok_job p (ReactionJob r st) = ok_reaction p r"
| "ok_job p (ThenableJob q r) = (q \<noteq> p)"

text \<open>
  \<open>login_quiet s\<close>: no callback of a login flow is outstanding in \<open>s\<close>, and no reaction
  resolves the promise that will be created next. \<open>guard_held p s\<close>: the login category
  holds \<open>p\<close>, which is pending, is no transport promise, and is left alone by every
  outstanding reaction and job.
\<close>

definition login_quiet :: "state \<Rightarrow> bool" where
  "login_quiet s =
     ((\<forall>q. \<forall>r \<in> set (reactions s q). ok_reaction (next_promise s) r) \<and>
      (\<forall>j \<in> set (queue s). ok_job (next_promise s) j))"

definition guard_held :: "nat \<Rightarrow> state \<Rightarrow> bool" where
  "guard_held p s =
     (p < next_promise s \<and> pstates s p = Pending \<and> \<not> transport s p \<and> p_login s = Some p \<and>
      (\<forall>q. \<forall>r \<in> set (reactions s q). ok_reaction p r) \<and>
      (\<forall>j \<in> set (queue s). ok_job p j))"

section \<open>Example configurations and states\<close>

definition demo_config :: config where
  "demo_config = \<lparr> provider = Named ''auth0'', responseType = ''id_token'', loginType = LIframe,
     autoRefresh = True, autoRefreshBuffer = 60000, redirectLoginCallback = False \<rparr>"

definition demo_page :: page where
  "demo_page = \<lparr> providers = (\<lambda>n. if n = ''auth0''
                    then Some \<lparr> d_loginType = None, d_autoRefresh = None, d_autoRefreshBuffer = None \<rparr>
                    else None),
     in_iframe = False, in_popup = False, location = ''https://app.example/'',
     stored = empty_profile, clock = 1000000, page_hidden = False, page_routeSecure = False \<rparr>"

definition demo_state :: state where
  "demo_state = init_state demo_config demo_page"

text \<open>Three application listeners on \<open>login\<close>; the second one throws.\<close>

definition demo_listening :: state where
  "demo_listening = demo_state\<lparr> listeners := (\<lambda>k. [])
     (''login'' := [UserFn 1 None, UserFn 2 (Some (Err (Thrown 7))), UserFn 3 None]) \<rparr>"

text \<open>
  A session with an id token that expires 120 seconds after the clock of the page
  (\<open>exp = 1120\<close> seconds, the clock at 1000000 milliseconds), and the same session with
  both renewal timers armed.
\<close>

definition demo_logged_in :: state where
  "demo_logged_in = demo_state\<lparr> prof := empty_profile\<lparr> userInfo := Some (1, 1120) \<rparr> \<rparr>"

definition demo_armed :: state where
  "demo_armed = demo_logged_in\<lparr> timers := (\<lambda>i. None)(0 := Some (60000, RefreshTick), 1 := Some (120000, ExpiredTick)),
     next_timer := 2, t_refresh := HId 0, t_expired := HId 1 \<rparr>"


definition demo_raw :: raw_config where
  "demo_raw = \<lparr> r_provider = Named ''auth0'', r_responseType = ''id_token'',
     r_settings = \<lparr> d_loginType = None, d_autoRefresh = None, d_autoRefreshBuffer = None \<rparr>,
     r_redirectLoginCallback = False \<rparr>"

section \<open>Auxiliary notions for the proofs\<close>

text \<open>
  \<open>sched_only s s'\<close>: the state \<open>s'\<close> differs from \<open>s\<close> at most in the timers, the two
  timer handles and the trace. This is all that firing an event can change.
\<close>

definition sched_only :: "state \<Rightarrow> state \<Rightarrow> bool" where
  "sched_only s s' = (\<exists>a b tm nt tr.
      s' = s\<lparr> t_refresh := a, t_expired := b, timers := tm, next_timer := nt, trace := tr \<rparr>)"

text \<open>The effects that start an authorization or deauthorization flow.\<close>

fun is_flow :: "effect \<Rightarrow> bool" where
  "is_flow (CreateIframe p u v t) = True"
| "is_flow (OpenPopup p u) = True"
| "is_flow (OpenNewTab p u) = True"
| "is_flow (Navigate u) = True"
| "is_flow e = False"





text \<open>
  A page whose stored session is still valid, the controller constructed on it (timer 0
  checks the route, timers 1 and 2 are the refresh and the expired timer), and that
  controller after \<open>logoutWithIframe\<close>: once with the answer of the provider arrived, once
  with a failed transport, the microtasks run in both cases.
\<close>

definition demo_page_logged_in :: page where
  "demo_page_logged_in = demo_page\<lparr> stored := empty_profile\<lparr> userInfo := Some (1, 1120) \<rparr> \<rparr>"

definition demo_constructed :: state where
  "demo_constructed =
     (case construct None (Some demo_raw) demo_page_logged_in of
        Inr (s, w) \<Rightarrow> s | Inl e \<Rightarrow> demo_state)"

definition demo_logged_out :: "arrival \<Rightarrow> state" where
  "demo_logged_out arr =
     (case drain 8 (env_settle (next_promise demo_constructed) arr
                      (snd (logoutWithIframe demo_constructed))) of
        Some s \<Rightarrow> s | None \<Rightarrow> demo_state)"

text \<open>The armed session with automatic refresh switched off.\<close>

definition demo_notice :: state where
  "demo_notice = demo_armed\<lparr> cfg := demo_config\<lparr> autoRefresh := False \<rparr> \<rparr>"

section \<open>Properties of the event bus\<close>

lemma indexOf_ge: "-1 \<le> indexOf xs x"
  by (induction xs) (auto simp: Let_def)

lemma indexOf_absent: "indexOf xs x = -1 \<longleftrightarrow> x \<notin> set xs"
proof (induction xs)
  case Nil
  show ?case by simp
next
  case (Cons y ys)
  have "-1 \<le> indexOf ys x" by (rule indexOf_ge)
  with Cons show ?case by (auto simp: Let_def)
qed

lemma splice_minus_one: "xs \<noteq> [] \<Longrightarrow> splice_arr xs (-1) 1 = butlast xs"
  by (cases xs rule: rev_cases) (auto simp: splice_arr_def Let_def max_def min_def butlast_conv_take)

lemma trace_clearTimeout [simp]: "trace (clearTimeout h s) = trace s"
  by (simp add: clearTimeout_def split: handle.splits)

lemma trace_dd_refreshToken [simp]: "trace (snd (dd_refreshToken s)) = trace s"
  by (simp add: dd_refreshToken_def setTimeout_def Let_def split: option.splits prod.splits)

lemma trace_call_listener: "trace (snd (call_listener l err dat s)) = trace s @ [Called l err dat]"
  by (cases l) (simp_all add: log_def Let_def)

text \<open>
  C10. For a known event kind with a non-empty listener list, \<open>off\<close> with a function that
  is not registered for that kind removes the last, that is the most recently registered,
  listener: \<open>indexOf\<close> answers \<open>-1\<close> and \<open>splice(-1, 1)\<close> cuts the last element.
\<close>

theorem off_unregistered_removes_last:
  assumes "k \<in> set event_types" and "listeners s k \<noteq> []" and "l \<notin> set (listeners s k)"
  shows "off k (Fn l) s = Inr (s\<lparr> listeners := (listeners s)(k := butlast (listeners s k)) \<rparr>)"
proof -
  have a: "indexOf (listeners s k) l = -1" using assms(3) by (simp add: indexOf_absent)
  have b: "indexOf event_types k \<noteq> -1" using assms(1) by (simp add: indexOf_absent)
  show ?thesis using assms(2) a b
    by (simp add: off_def check_event_def splice_minus_one Let_def)
qed

theorem off_unregistered_removes_last_witness:
  "off ''login'' (Fn (UserFn 9 None)) demo_listening =
     Inr (demo_listening\<lparr> listeners := (listeners demo_listening)
        (''login'' := [UserFn 1 None, UserFn 2 (Some (Err (Thrown 7)))]) \<rparr>)"
proof -
  have k: "''login'' \<in> set event_types" by (simp add: event_types_def)
  have ne: "listeners demo_listening ''login'' \<noteq> []" by (simp add: demo_listening_def)
  have nin: "UserFn 9 None \<notin> set (listeners demo_listening ''login'')"
    by (simp add: demo_listening_def)
  show ?thesis
    using off_unregistered_removes_last [OF k ne nin] by (simp add: demo_listening_def)
qed

lemma forEach_trace:
  "forEach ls err dat s = (r, s') \<Longrightarrow>
     \<exists>n \<le> length ls. trace s' = trace s @ map (\<lambda>l. Called l err dat) (take n ls)
        \<and> (r = None \<longrightarrow> n = length ls) \<and> (r \<noteq> None \<longrightarrow> 0 < n)"
proof (induction ls arbitrary: s)
  case Nil
  then show ?case by auto
next
  case (Cons l ls)
  obtain t s1 where c: "call_listener l err dat s = (t, s1)" by (cases "call_listener l err dat s")
  have tr: "trace s1 = trace s @ [Called l err dat]" using trace_call_listener[of l err dat s] c by simp
  show ?case
  proof (cases t)
    case None
    with Cons.prems c have "forEach ls err dat s1 = (r, s')" by simp
    from Cons.IH[OF this] obtain n where n: "n \<le> length ls"
      "trace s' = trace s1 @ map (\<lambda>l. Called l err dat) (take n ls)"
      "r = None \<longrightarrow> n = length ls" by blast
    show ?thesis
      by (rule exI[of _ "Suc n"]) (use n tr in auto)
  next
    case (Some e)
    with Cons.prems c have "r = Some e" "s' = s1" by auto
    then show ?thesis
      by (intro exI[of _ 1]) (use tr in auto)
  qed
qed







section \<open>Properties of the constructor and the renewal scheduler\<close>

text \<open>
  C9. When \<^verbatim>\<open>window.salte.auth\<close> already holds an instance, the constructor answers that
  instance unchanged, whatever configuration (or none) and page it is given; when there is
  no instance, a missing configuration is a ReferenceError.
\<close>

theorem construct_returns_existing_instance:
  "construct (Some a) c pg = Inr (a, Some a) \<and>
   construct None None pg = Inl (Err (ReferenceError ''A config must be provided.''))"
  by (simp add: construct_def)





section \<open>Configuration errors\<close>

lemma needs_login_frame:
  "cfg s' = cfg s \<Longrightarrow> prof s' = prof s \<Longrightarrow> now s' = now s \<Longrightarrow> needs_login s' = needs_login s"
  by (simp add: needs_login_def)








section \<open>What firing an event can change\<close>

lemma sched_only_refl: "sched_only s s"
  unfolding sched_only_def
  by (rule exI[of _ "t_refresh s"], rule exI[of _ "t_expired s"], rule exI[of _ "timers s"],
      rule exI[of _ "next_timer s"], rule exI[of _ "trace s"]) simp

lemma sched_only_trans: "sched_only s s1 \<Longrightarrow> sched_only s1 s2 \<Longrightarrow> sched_only s s2"
  unfolding sched_only_def by (elim exE) (simp, blast)

lemma sched_only_upd:
  "sched_only s (s\<lparr> trace := x \<rparr>)" "sched_only s (s\<lparr> timers := y \<rparr>)"
  "sched_only s (s\<lparr> t_refresh := a \<rparr>)" "sched_only s (s\<lparr> t_expired := b \<rparr>)"
  "sched_only s (s\<lparr> next_timer := n \<rparr>)"
  using sched_only_refl[of "s\<lparr> trace := x \<rparr>"] sched_only_refl[of "s\<lparr> timers := y \<rparr>"]
    sched_only_refl[of "s\<lparr> t_refresh := a \<rparr>"] sched_only_refl[of "s\<lparr> t_expired := b \<rparr>"]
    sched_only_refl[of "s\<lparr> next_timer := n \<rparr>"]
  unfolding sched_only_def by simp_all


lemma sched_only_clearTimeout: "sched_only s (clearTimeout h s)"
  by (cases h) (simp_all add: clearTimeout_def sched_only_refl sched_only_upd)

lemma sched_only_setTimeout: "sched_only s (snd (setTimeout a d s))"
  unfolding setTimeout_def sched_only_def
  by (simp, rule exI[of _ "t_refresh s"], rule exI[of _ "t_expired s"], rule exI, rule exI,
      rule exI[of _ "trace s"]) simp

lemma sched_only_log: "sched_only s (log e s)"
  by (simp add: log_def sched_only_upd)

lemma sched_only_dd_refreshToken: "sched_only s (snd (dd_refreshToken s))"
proof -
  let ?s1 = "if t_refresh s \<noteq> HUndefined then clearTimeout (t_refresh s) s else s"
  let ?s2 = "if t_expired ?s1 \<noteq> HUndefined then clearTimeout (t_expired ?s1) ?s1 else ?s1"
  have 1: "sched_only s ?s1" by (simp add: sched_only_refl sched_only_clearTimeout)
  have "sched_only ?s1 ?s2" by (simp add: sched_only_refl sched_only_clearTimeout)
  with 1 have 2: "sched_only s ?s2" by (rule sched_only_trans)
  show ?thesis
  proof (cases "userInfo (prof ?s2)")
    case None
    then have "snd (dd_refreshToken s) = ?s2" by (simp add: dd_refreshToken_def Let_def)
    with 2 show ?thesis by simp
  next
    case (Some ue)
    obtain u e where ue: "ue = (u, e)" by (cases ue)
    obtain i s3 where a: "setTimeout RefreshTick (max (e * 1000 - now ?s2 - autoRefreshBuffer (cfg ?s2)) 0) ?s2 = (i, s3)"
      by (cases "setTimeout RefreshTick (max (e * 1000 - now ?s2 - autoRefreshBuffer (cfg ?s2)) 0) ?s2")
    obtain j s5 where b: "setTimeout ExpiredTick (max (e * 1000 - now ?s2) 0) (s3\<lparr>t_refresh := HId i\<rparr>) = (j, s5)"
      by (cases "setTimeout ExpiredTick (max (e * 1000 - now ?s2) 0) (s3\<lparr>t_refresh := HId i\<rparr>)")
    have 3: "sched_only ?s2 s3" using sched_only_setTimeout[of ?s2 RefreshTick] a
      by (metis snd_conv)
    have 4: "sched_only s3 (s3\<lparr>t_refresh := HId i\<rparr>)" by (rule sched_only_upd)
    have 5: "sched_only (s3\<lparr>t_refresh := HId i\<rparr>) s5"
      using sched_only_setTimeout[of "s3\<lparr>t_refresh := HId i\<rparr>" ExpiredTick] b by (metis snd_conv)
    have 6: "sched_only s5 (s5\<lparr>t_expired := HId j\<rparr>)" by (rule sched_only_upd)
    have r: "snd (dd_refreshToken s) = s5\<lparr>t_expired := HId j\<rparr>"
      using Some ue a b by (simp add: dd_refreshToken_def Let_def)
    show ?thesis unfolding r
      using 2 3 4 5 6 sched_only_trans by blast
  qed
qed

lemma sched_only_call_listener: "sched_only s (snd (call_listener l err dat s))"
proof (cases l)
  case OnLoginRenew
  then show ?thesis
    using sched_only_trans[OF sched_only_log sched_only_dd_refreshToken] by (simp add: sched_only_log)
next
  case OnRefreshRenew
  then show ?thesis
    using sched_only_trans[OF sched_only_log sched_only_dd_refreshToken] by (simp add: sched_only_log)
next
  case OnLogoutCancel
  then show ?thesis
    using sched_only_trans[OF sched_only_log sched_only_clearTimeout] by (simp add: Let_def)
next
  case (UserFn i t)
  then show ?thesis by (simp add: sched_only_log)
qed

lemma sched_only_forEach: "sched_only s (snd (forEach ls err dat s))"
proof (induction ls arbitrary: s)
  case Nil
  show ?case by (simp add: sched_only_refl)
next
  case (Cons l ls)
  obtain t s1 where c: "call_listener l err dat s = (t, s1)" by (cases "call_listener l err dat s")
  have 1: "sched_only s s1" using sched_only_call_listener[of s l err dat] c by simp
  show ?case
  proof (cases t)
    case None
    then show ?thesis using c 1 Cons[of s1] sched_only_trans by auto
  next
    case (Some e)
    then show ?thesis using c 1 by simp
  qed
qed

lemma sched_only_d_fire: "sched_only s (snd (d_fire k err dat s))"
  using sched_only_trans[OF sched_only_log sched_only_forEach]
  by (simp add: d_fire_def Let_def sched_only_log)

section \<open>Coalescing of requests\<close>





lemma login_guards:
  assumes "p_login s = Some p"
  shows "loginWithIframe a s = (p, s)" "loginWithPopup s = (p, s)" "loginWithNewTab s = (p, s)"
    "loginWithRedirect r s = (p, if redirectLoginCallback (cfg s) then log ConsoleWarn s else s)"
  using assms
  by (simp_all add: loginWithIframe_def loginWithPopup_def loginWithNewTab_def loginWithRedirect_def
        log_def Let_def)







lemma demo_state_idle:
  "p_token demo_state = None" "p_login demo_state = None" "needs_login demo_state"
  "loginType (cfg demo_state) = LIframe" "redirectLoginCallback (cfg demo_state) = False"
  by (simp_all add: demo_state_def init_state_def demo_config_def demo_page_def needs_login_def
        idTokenExpired_def empty_profile_def)


section \<open>Running the callbacks of a flow\<close>

lemma sched_only_fields:
  assumes "sched_only s s'"
  shows "cfg s' = cfg s" "p_login s' = p_login s" "p_logout s' = p_logout s"
    "p_refresh s' = p_refresh s" "p_token s' = p_token s" "listeners s' = listeners s"
    "prof s' = prof s" "now s' = now s" "href s' = href s" "hidden s' = hidden s"
    "routeSecure s' = routeSecure s" "uuid s' = uuid s" "pstates s' = pstates s"
    "reactions s' = reactions s" "transport s' = transport s" "next_promise s' = next_promise s"
    "queue s' = queue s"
  using assms unfolding sched_only_def by auto

lemmas d_fire_fields [simp] = sched_only_fields [OF sched_only_d_fire]

lemma fire_then_alt:
  "fire_then k err dat rest s =
     (case fst (d_fire k err dat s) of
        Some e \<Rightarrow> (Throw e, snd (d_fire k err dat s))
      | None \<Rightarrow> rest (snd (d_fire k err dat s)))"
  by (simp add: fire_then_def split: prod.splits option.splits)

lemma drain_empty [simp]: "queue s = [] \<Longrightarrow> drain n s = Some s"
  by (cases n) simp_all

lemmas promise_defs = env_settle_def settle_def new_promise_def p_then_def p_catch_def
  add_reaction_def resolve_with_def promise_reject_def log_def Let_def








lemma needs_login_upd [simp]:
  "needs_login (s\<lparr> p_token := x \<rparr>) = needs_login s"
  "needs_login (s\<lparr> pstates := ps, reactions := rs, transport := ts, next_promise := n \<rparr>) = needs_login s"
  by (simp_all add: needs_login_def)











section \<open>The redirect guard\<close>

lemma guard_held_sched_only:
  "sched_only s s' \<Longrightarrow> guard_held p s' = guard_held p s"
  by (auto simp: sched_only_def guard_held_def)

lemma guard_held_new_promise:
  "guard_held p s \<Longrightarrow> guard_held p (snd (new_promise st s)) \<and> fst (new_promise st s) \<noteq> p"
  by (auto simp: guard_held_def new_promise_def)

lemma guard_held_add_reaction:
  "guard_held p s \<Longrightarrow> ok_reaction p r \<Longrightarrow> guard_held p (add_reaction q r s)"
  by (auto simp: guard_held_def add_reaction_def split: pstate.splits)

lemma guard_held_settle:
  "guard_held p s \<Longrightarrow> q \<noteq> p \<Longrightarrow> guard_held p (settle q st s)"
  by (auto simp: guard_held_def settle_def)

lemma ok_reaction_target:
  "ok_reaction p r \<Longrightarrow> (case r of Then h q \<Rightarrow> q \<noteq> p | Catch h q \<Rightarrow> q \<noteq> p | Resolve q \<Rightarrow> q \<noteq> p)"
  by (cases r) auto


lemma guard_held_run_handler:
  assumes "guard_held p s" "\<not> login_handler h"
  shows "guard_held p (snd (run_handler h v s))"
  using assms
  by (cases h)
     (auto simp: guard_held_def fire_then_alt promise_reject_def new_promise_def
        d_accessTokenUrl_def rotate_def createIframe_def p_then_def add_reaction_def log_def
        clearTimeout_def Let_def
        split: option.splits prod.splits handle.splits)

lemma guard_held_resolve_with:
  "guard_held p s \<Longrightarrow> q \<noteq> p \<Longrightarrow> guard_held p (resolve_with q out s)"
  by (cases out) (auto simp: resolve_with_def guard_held_settle, auto simp: guard_held_def)

lemma guard_held_dequeue:
  "guard_held p s \<Longrightarrow> queue s = j # js \<Longrightarrow> guard_held p (s\<lparr> queue := js \<rparr>) \<and> ok_job p j"
  by (auto simp: guard_held_def)

lemma guard_held_exec_job:
  assumes "guard_held p s" "ok_job p j"
  shows "guard_held p (exec_job j s)"
proof (cases j)
  case (ThenableJob q r)
  with assms show ?thesis by (simp add: guard_held_add_reaction)
next
  case (ReactionJob r st)
  show ?thesis
  proof (cases r)
    case (Resolve q)
    with assms ReactionJob show ?thesis by (cases st) (simp_all add: guard_held_settle)
  next
    case (Then h q)
    with assms ReactionJob have a: "q \<noteq> p" "\<not> login_handler h" by simp_all
    show ?thesis
    proof (cases st)
      case (Fulfilled v)
      obtain out s1 where r: "run_handler h v s = (out, s1)" by (cases "run_handler h v s")
      with guard_held_run_handler[OF assms(1) a(2), of v] have "guard_held p s1" by simp
      then show ?thesis using ReactionJob Then Fulfilled r a by (simp add: guard_held_resolve_with)
    qed (use assms ReactionJob Then a in \<open>simp_all add: guard_held_settle\<close>)
  next
    case (Catch h q)
    with assms ReactionJob have a: "q \<noteq> p" "\<not> login_handler h" by simp_all
    show ?thesis
    proof (cases st)
      case (Rejected v)
      obtain out s1 where r: "run_handler h v s = (out, s1)" by (cases "run_handler h v s")
      with guard_held_run_handler[OF assms(1) a(2), of v] have "guard_held p s1" by simp
      then show ?thesis using ReactionJob Catch Rejected r a by (simp add: guard_held_resolve_with)
    qed (use assms ReactionJob Catch a in \<open>simp_all add: guard_held_settle\<close>)
  qed
qed


lemma guard_held_login:
  assumes "guard_held p s"
  shows "loginWithIframe a s = (p, s)" "loginWithPopup s = (p, s)" "loginWithNewTab s = (p, s)"
    "loginWithRedirect r s = (p, if redirectLoginCallback (cfg s) then log ConsoleWarn s else s)"
  using assms by (simp_all add: guard_held_def login_guards)

lemma guard_held_log: "guard_held p (log e s) = guard_held p s"
  by (simp add: guard_held_def log_def)

lemma guard_held_upd [simp]:
  "guard_held p (s\<lparr> prof := a \<rparr>) = guard_held p s"
  "guard_held p (s\<lparr> p_logout := b \<rparr>) = guard_held p s"
  "guard_held p (s\<lparr> p_refresh := c \<rparr>) = guard_held p s"
  "guard_held p (s\<lparr> p_token := d \<rparr>) = guard_held p s"
  "guard_held p (s\<lparr> uuid := e \<rparr>) = guard_held p s"
  "guard_held p (s\<lparr> trace := f \<rparr>) = guard_held p s"
  "guard_held p (s\<lparr> listeners := g \<rparr>) = guard_held p s"
  "guard_held p (s\<lparr> now := h \<rparr>) = guard_held p s"
  "guard_held p (s\<lparr> href := i \<rparr>) = guard_held p s"
  "guard_held p (s\<lparr> hidden := j \<rparr>) = guard_held p s"
  "guard_held p (s\<lparr> routeSecure := k \<rparr>) = guard_held p s"
  "guard_held p (s\<lparr> timers := l \<rparr>) = guard_held p s"
  "guard_held p (s\<lparr> next_timer := m \<rparr>) = guard_held p s"
  "guard_held p (s\<lparr> t_refresh := n \<rparr>) = guard_held p s"
  "guard_held p (s\<lparr> t_expired := n \<rparr>) = guard_held p s"
  "guard_held p (s\<lparr> cfg := x \<rparr>) = guard_held p s"
  by (simp_all add: guard_held_def)

lemma guard_held_p_then [simp]:
  "guard_held p s \<Longrightarrow> \<not> login_handler h \<Longrightarrow> guard_held p (snd (p_then src h s))"
  by (auto simp: p_then_def guard_held_def new_promise_def add_reaction_def Let_def
        split: pstate.splits)

lemma guard_held_p_catch [simp]:
  "guard_held p s \<Longrightarrow> \<not> login_handler h \<Longrightarrow> guard_held p (snd (p_catch src h s))"
  by (auto simp: p_catch_def guard_held_def new_promise_def add_reaction_def Let_def
        split: pstate.splits)

lemma guard_held_transports [simp]:
  "guard_held p s \<Longrightarrow> guard_held p (snd (createIframe u v t s))"
  "guard_held p s \<Longrightarrow> guard_held p (snd (openPopup u s))"
  "guard_held p s \<Longrightarrow> guard_held p (snd (openNewTab u s))"
  by (auto simp: createIframe_def openPopup_def openNewTab_def guard_held_def new_promise_def
        log_def Let_def)

lemma guard_held_new [simp]:
  "guard_held p s \<Longrightarrow> guard_held p (snd (new_promise st s))"
  by (simp add: guard_held_new_promise)

lemma guard_held_logout:
  assumes "guard_held p s"
  shows "guard_held p (snd (logoutWithIframe s))" "guard_held p (snd (logoutWithPopup s))"
    "guard_held p (snd (logoutWithNewTab s))" "guard_held p (logoutWithRedirect s)"
  using assms
  by (simp_all add: logoutWithIframe_def logoutWithPopup_def logoutWithNewTab_def
        logoutWithRedirect_def navigate_def log_def Let_def split_beta split: option.splits)

lemma guard_held_refreshToken:
  assumes "guard_held p s"
  shows "guard_held p (snd (refreshToken s))"
  using assms
  by (simp add: guard_held_login refreshToken_def Let_def split_beta split: option.splits)

lemma guard_held_token_chain:
  assumes "guard_held p s"
  shows "guard_held p (snd (token_chain l s))"
  using assms
  by (simp add: token_chain_def Let_def split_beta)

lemma new_promise_fields [simp]:
  "fst (new_promise st s) = next_promise s"
  "cfg (snd (new_promise st s)) = cfg s"
  "p_login (snd (new_promise st s)) = p_login s"
  "p_token (snd (new_promise st s)) = p_token s"
  "needs_login (snd (new_promise st s)) = needs_login s"
  by (simp_all add: new_promise_def needs_login_def)

lemma guard_held_retrieve:
  assumes "guard_held p s"
  shows "guard_held p (snd (retrieveAccessToken s))"
proof -
  have l: "p_login s = Some p" using assms by (simp add: guard_held_def)
  show ?thesis
    using assms l
    by (simp add: retrieveAccessToken_def loginWithIframe_def loginWithRedirect_def log_def
          Let_def split_beta guard_held_token_chain
          split: option.splits login_type.splits)
qed

lemma guard_held_env_settle:
  assumes "guard_held p s"
  shows "guard_held p (env_settle t a s)"
proof (cases "transport s t")
  case True
  with assms have "t \<noteq> p" by (auto simp: guard_held_def)
  with assms show ?thesis
    by (cases a) (simp_all add: env_settle_def guard_held_settle)
next
  case False
  with assms show ?thesis by (simp add: env_settle_def)
qed

lemma guard_held_d_fire [simp]:
  "guard_held p (snd (d_fire k e d s)) = guard_held p s"
  by (rule guard_held_sched_only[OF sched_only_d_fire])

lemma guard_held_dd_refreshToken [simp]:
  "guard_held p (snd (dd_refreshToken s)) = guard_held p s"
  by (rule guard_held_sched_only[OF sched_only_dd_refreshToken])

lemma guard_held_route: "guard_held p s \<Longrightarrow> guard_held p (dd_onRouteChanged s)"
  by (simp add: dd_onRouteChanged_def guard_held_retrieve)

lemma guard_held_visibility: "guard_held p s \<Longrightarrow> guard_held p (snd (dd_onVisibilityChanged s))"
  by (simp add: dd_onVisibilityChanged_def guard_held_refreshToken Let_def split_beta)

lemma guard_held_run_timer: "guard_held p s \<Longrightarrow> guard_held p (snd (run_timer a s))"
  by (cases a)
     (simp_all add: guard_held_refreshToken guard_held_route Let_def split_beta navigate_def log_def
        split: option.splits)

lemma guard_held_fire_timer: "guard_held p s \<Longrightarrow> guard_held p (snd (fire_timer i s))"
  by (simp add: fire_timer_def guard_held_run_timer split: option.splits)

lemma guard_held_on_off:
  assumes "guard_held p s"
  shows "guard_held p (case on k cb s of Inl e \<Rightarrow> s | Inr s1 \<Rightarrow> s1)"
    "guard_held p (case off k cb s of Inl e \<Rightarrow> s | Inr s1 \<Rightarrow> s1)"
  using assms
  by (simp_all add: on_def off_def Let_def split: option.splits callback.splits)

lemma guard_held_perform:
  assumes "guard_held p s"
  shows "guard_held p (perform a s)"
proof (cases a)
  case Microtask
  show ?thesis
  proof (cases "queue s")
    case Nil
    with assms Microtask show ?thesis by simp
  next
    case (Cons j js)
    from guard_held_dequeue[OF assms Cons] guard_held_exec_job[of p "s\<lparr>queue := js\<rparr>" j]
    show ?thesis using Microtask Cons by simp
  qed
qed (use assms in \<open>simp_all add: guard_held_login guard_held_log guard_held_logout
      guard_held_refreshToken guard_held_retrieve guard_held_on_off guard_held_env_settle
      guard_held_fire_timer guard_held_route guard_held_visibility\<close>)

lemma guard_held_run:
  "guard_held p s \<Longrightarrow> guard_held p (run as s)"
  by (induction as arbitrary: s) (simp_all add: guard_held_perform)


lemma guard_held_after_redirect:
  assumes "p_login s = None" "login_quiet s"
  shows "fst (loginWithRedirect r s) = next_promise s"
    "guard_held (next_promise s) (snd (loginWithRedirect r s))"
    "filter is_flow (trace (snd (loginWithRedirect r s))) =
       filter is_flow (trace s) @ [Navigate (LoginUrl False (uuid s) (Suc (uuid s)))]"
  using assms
  by (auto simp: loginWithRedirect_def login_quiet_def guard_held_def new_promise_def d_loginUrl_def
        rotate_def navigate_def log_def profile_clear_def Let_def)

text \<open>
  C7. Call \<open>loginWithRedirect\<close> while the login category is idle and no login callback is
  outstanding. The call navigates once and returns a promise that is no transport promise.
  After any history of the page (calls of the interface, transports that settle, timers,
  microtasks, route and visibility changes) that promise is still pending and still held
  by the login category, and every login request of any flow type returns it without
  changing the state or starting a flow (\<open>loginWithRedirect\<close> may print its warning).
\<close>

theorem redirect_login_never_settles:
  assumes "p_login s = None" and "login_quiet s"
  shows "pstates (run as (snd (loginWithRedirect r s))) (fst (loginWithRedirect r s)) = Pending \<and>
     \<not> transport (run as (snd (loginWithRedirect r s))) (fst (loginWithRedirect r s)) \<and>
     p_login (run as (snd (loginWithRedirect r s))) = Some (fst (loginWithRedirect r s)) \<and>
     loginWithIframe a (run as (snd (loginWithRedirect r s))) =
       (fst (loginWithRedirect r s), run as (snd (loginWithRedirect r s))) \<and>
     loginWithPopup (run as (snd (loginWithRedirect r s))) =
       (fst (loginWithRedirect r s), run as (snd (loginWithRedirect r s))) \<and>
     loginWithNewTab (run as (snd (loginWithRedirect r s))) =
       (fst (loginWithRedirect r s), run as (snd (loginWithRedirect r s))) \<and>
     fst (loginWithRedirect r' (run as (snd (loginWithRedirect r s)))) = fst (loginWithRedirect r s) \<and>
     filter is_flow (trace (snd (loginWithRedirect r' (run as (snd (loginWithRedirect r s)))))) =
       filter is_flow (trace (run as (snd (loginWithRedirect r s)))) \<and>
     filter is_flow (trace (snd (loginWithRedirect r s))) =
       filter is_flow (trace s) @ [Navigate (LoginUrl False (uuid s) (Suc (uuid s)))]"
proof -
  let ?p = "fst (loginWithRedirect r s)"
  let ?s = "run as (snd (loginWithRedirect r s))"
  have p: "?p = next_promise s" by (rule guard_held_after_redirect(1)[OF assms])
  have "guard_held ?p (snd (loginWithRedirect r s))"
    unfolding p by (rule guard_held_after_redirect(2)[OF assms])
  then have g: "guard_held ?p ?s" by (rule guard_held_run)
  have f: "filter is_flow (trace (snd (loginWithRedirect r' ?s))) = filter is_flow (trace ?s)"
    by (simp add: guard_held_login(4)[OF g] log_def)
  show ?thesis
    using g f guard_held_login[OF g] guard_held_after_redirect(3)[OF assms]
    by (simp add: guard_held_def)
qed

lemma demo_state_login_quiet: "login_quiet demo_state"
  by (simp add: login_quiet_def demo_state_def init_state_def)

theorem redirect_login_never_settles_witness:
  "pstates (run [Retrieve, Microtask, LoginPopup, Settle 0 (Failed (Err (TransportError 1))), Microtask, Timer 0, Refresh] (snd (loginWithRedirect None demo_state))) (fst (loginWithRedirect None demo_state)) = Pending \<and>
     \<not> transport (run [Retrieve, Microtask, LoginPopup, Settle 0 (Failed (Err (TransportError 1))), Microtask, Timer 0, Refresh] (snd (loginWithRedirect None demo_state))) (fst (loginWithRedirect None demo_state)) \<and>
     p_login (run [Retrieve, Microtask, LoginPopup, Settle 0 (Failed (Err (TransportError 1))), Microtask, Timer 0, Refresh] (snd (loginWithRedirect None demo_state))) = Some (fst (loginWithRedirect None demo_state)) \<and>
     loginWithIframe ArgUndefined (run [Retrieve, Microtask, LoginPopup, Settle 0 (Failed (Err (TransportError 1))), Microtask, Timer 0, Refresh] (snd (loginWithRedirect None demo_state))) =
       (fst (loginWithRedirect None demo_state), run [Retrieve, Microtask, LoginPopup, Settle 0 (Failed (Err (TransportError 1))), Microtask, Timer 0, Refresh] (snd (loginWithRedirect None demo_state))) \<and>
     loginWithPopup (run [Retrieve, Microtask, LoginPopup, Settle 0 (Failed (Err (TransportError 1))), Microtask, Timer 0, Refresh] (snd (loginWithRedirect None demo_state))) =
       (fst (loginWithRedirect None demo_state), run [Retrieve, Microtask, LoginPopup, Settle 0 (Failed (Err (TransportError 1))), Microtask, Timer 0, Refresh] (snd (loginWithRedirect None demo_state))) \<and>
     loginWithNewTab (run [Retrieve, Microtask, LoginPopup, Settle 0 (Failed (Err (TransportError 1))), Microtask, Timer 0, Refresh] (snd (loginWithRedirect None demo_state))) =
       (fst (loginWithRedirect None demo_state), run [Retrieve, Microtask, LoginPopup, Settle 0 (Failed (Err (TransportError 1))), Microtask, Timer 0, Refresh] (snd (loginWithRedirect None demo_state))) \<and>
     fst (loginWithRedirect (Some ''https://app.example/back'') (run [Retrieve, Microtask, LoginPopup, Settle 0 (Failed (Err (TransportError 1))), Microtask, Timer 0, Refresh] (snd (loginWithRedirect None demo_state)))) = fst (loginWithRedirect None demo_state) \<and>
     filter is_flow (trace (snd (loginWithRedirect (Some ''https://app.example/back'') (run [Retrieve, Microtask, LoginPopup, Settle 0 (Failed (Err (TransportError 1))), Microtask, Timer 0, Refresh] (snd (loginWithRedirect None demo_state)))))) =
       filter is_flow (trace (run [Retrieve, Microtask, LoginPopup, Settle 0 (Failed (Err (TransportError 1))), Microtask, Timer 0, Refresh] (snd (loginWithRedirect None demo_state)))) \<and>
     filter is_flow (trace (snd (loginWithRedirect None demo_state))) =
       filter is_flow (trace demo_state) @ [Navigate (LoginUrl False (uuid demo_state) (Suc (uuid demo_state)))]"
  by (rule redirect_login_never_settles [OF demo_state_idle(2) demo_state_login_quiet])

section \<open>Logout and the renewal timers\<close>

lemma logoutWithIframe_timers:
  assumes "p_logout s = None" "queue s = []" "listeners s ''logout'' = [OnLogoutCancel]"
  shows "prof (snd (logoutWithIframe s)) = empty_profile"
    "\<exists>s'. drain 8 (env_settle (next_promise s) arr (snd (logoutWithIframe s))) = Some s' \<and>
        p_logout s' = None \<and> timers s' = timers (clearTimeout (t_refresh s) s) \<and>
        t_expired s' = t_expired s"
  using assms
  by (cases arr;
      simp add: eval_nat_numeral logoutWithIframe_def createIframe_def promise_defs fire_then_def
        d_fire_def clearTimeout_def profile_clear_def split: handle.splits)+

lemma demo_constructed_facts:
  "p_logout demo_constructed = None" "queue demo_constructed = []"
  "listeners demo_constructed ''logout'' = [OnLogoutCancel]"
  "t_refresh demo_constructed = HId 1" "t_expired demo_constructed = HId 2"
  "timers demo_constructed 1 = Some (60000, RefreshTick)"
  "timers demo_constructed 2 = Some (120000, ExpiredTick)"
  by (simp_all add: demo_constructed_def construct_def d_provider_def demo_raw_def
        demo_page_logged_in_def demo_page_def merge_config_def first_of_def init_state_def
        setup_page_def on_internal_def on_def check_event_def event_types_def setTimeout_def
        idTokenExpired_def empty_profile_def dd_refreshToken_def d_fire_def log_def Let_def)

text \<open>
  C4 at a concrete session. The constructed controller has armed the refresh timer 1 and
  the expired timer 2. \<open>logoutWithIframe\<close> clears the profile at once; when the transport
  has settled, with the provider's answer or with a failure, the \<open>logout\<close> listener of the
  constructor has cancelled timer 1 only: the expired timer 2 is still armed.
\<close>

theorem logout_leaves_expired_timer_armed:
  "timers demo_constructed 1 = Some (60000, RefreshTick) \<and>
   timers demo_constructed 2 = Some (120000, ExpiredTick) \<and>
   prof (snd (logoutWithIframe demo_constructed)) = empty_profile \<and>
   timers (demo_logged_out (Arrived empty_profile)) 1 = None \<and>
   timers (demo_logged_out (Arrived empty_profile)) 2 = Some (120000, ExpiredTick) \<and>
   timers (demo_logged_out (Failed (Err (TransportError 1)))) 1 = None \<and>
   timers (demo_logged_out (Failed (Err (TransportError 1)))) 2 = Some (120000, ExpiredTick)"
proof -
  note f = demo_constructed_facts
  have t: "timers (demo_logged_out arr) = (timers demo_constructed)(1 := None)" for arr
    using logoutWithIframe_timers(2)[OF f(1) f(2) f(3), of arr]
    by (auto simp: demo_logged_out_def clearTimeout_def f(4))
  show ?thesis
    using f(6) f(7) logoutWithIframe_timers(1)[OF f(1) f(2) f(3)] by (simp add: t)
qed

section \<open>The renewal timers fire\<close>

lemma d_fire_trace:
  "\<exists>n \<le> length (listeners s k).
     trace (snd (d_fire k err dat s)) = trace s @ Broadcast (''salte-auth-'' @ k) err dat #
        map (\<lambda>l. Called l err dat) (take n (listeners s k))"
proof (cases "listeners s k = []")
  case True
  then show ?thesis by (simp add: d_fire_def log_def Let_def)
next
  case False
  obtain r s' where f: "forEach (listeners s k) err dat (log (Broadcast (''salte-auth-'' @ k) err dat) s) = (r, s')"
    by (cases "forEach (listeners s k) err dat (log (Broadcast (''salte-auth-'' @ k) err dat) s)")
  from forEach_trace[OF f] False f show ?thesis by (auto simp: d_fire_def log_def Let_def)
qed

lemma d_fire_no_flow:
  "filter is_flow (trace (snd (d_fire k err dat s))) = filter is_flow (trace s)"
proof -
  from d_fire_trace[of s k err dat] obtain n where
    t: "trace (snd (d_fire k err dat s)) = trace s @ Broadcast (''salte-auth-'' @ k) err dat #
        map (\<lambda>l. Called l err dat) (take n (listeners s k))" by blast
  show ?thesis unfolding t by (simp add: filter_empty_conv)
qed

lemma refresh_tick_starts_flow:
  assumes "autoRefresh (cfg s)" "p_refresh s = None" "p_login s = None"
  shows "fst (run_timer RefreshTick s) = None"
    "trace (snd (run_timer RefreshTick s)) = trace s @
       [CreateIframe (next_promise s) (LoginUrl True (uuid s) (Suc (uuid s))) (Some False) (Some 3000)]"
    "p_refresh (snd (run_timer RefreshTick s)) = Some (next_promise s + 4)"
    "reactions (snd (run_timer RefreshTick s)) (next_promise s + 4) =
       [Catch ConsoleErrorCatch (next_promise s + 5)]"
  using assms
  by (simp_all add: refreshToken_def loginWithIframe_def login_defaults_def d_loginUrl_def rotate_def
        createIframe_def new_promise_def p_then_def p_catch_def add_reaction_def log_def Let_def
        profile_clearErrors_def)

lemma refresh_tick_failure_reported:
  assumes "autoRefresh (cfg s)" "p_refresh s = None" "p_login s = None" "queue s = []"
  shows "\<exists>s' x. drain 16 (env_settle (next_promise s) (Failed e) (snd (run_timer RefreshTick s))) = Some s' \<and>
     p_refresh s' = None \<and> p_login s' = None \<and> last (trace s') = ConsoleError x \<and>
     pstates s' (next_promise s + 5) = Fulfilled Undefined"
  using assms
  by (simp add: eval_nat_numeral refreshToken_def loginWithIframe_def login_defaults_def
        d_loginUrl_def rotate_def createIframe_def promise_defs fire_then_alt
        split: option.splits)


text \<open>
  C6. A timer that fires runs the callback it was armed with. The refresh callback, with
  automatic refresh enabled and no refresh or login in flight, starts the refresh flow
  (the silent iframe login) and lets no exception escape; when the transport of that flow
  fails, the failure is printed with \<open>console.error\<close>, the promise of the callback is
  fulfilled and the refresh category is idle again. With automatic refresh disabled, the
  callback is exactly \<open>$fire('refresh')\<close>, without error and data: the window event,
  then the listeners; it changes nothing but timers and trace and starts no flow. The
  expired callback is \<open>$fire('expired')\<close>, whatever the configuration.
\<close>

theorem refresh_timer_callback:
  "(timers s i = Some (d, act) \<longrightarrow>
      fire_timer i s = run_timer act (s\<lparr> timers := (timers s)(i := None) \<rparr>)) \<and>
   (autoRefresh (cfg s) \<and> p_refresh s = None \<and> p_login s = None \<and> queue s = [] \<longrightarrow>
      fst (run_timer RefreshTick s) = None \<and>
      trace (snd (run_timer RefreshTick s)) = trace s @
        [CreateIframe (next_promise s) (LoginUrl True (uuid s) (Suc (uuid s))) (Some False) (Some 3000)] \<and>
      (\<exists>s' x. drain 16 (env_settle (next_promise s) (Failed e) (snd (run_timer RefreshTick s))) = Some s' \<and>
         p_refresh s' = None \<and> p_login s' = None \<and> last (trace s') = ConsoleError x \<and>
         pstates s' (next_promise s + 5) = Fulfilled Undefined)) \<and>
   (\<not> autoRefresh (cfg s) \<longrightarrow>
      run_timer RefreshTick s = d_fire ''refresh'' Undefined Undefined s \<and>
      sched_only s (snd (run_timer RefreshTick s)) \<and>
      filter is_flow (trace (snd (run_timer RefreshTick s))) = filter is_flow (trace s) \<and>
      (\<exists>n \<le> length (listeners s ''refresh'').
         trace (snd (run_timer RefreshTick s)) =
           trace s @ Broadcast ''salte-auth-refresh'' Undefined Undefined #
             map (\<lambda>l. Called l Undefined Undefined) (take n (listeners s ''refresh'')))) \<and>
   run_timer ExpiredTick s = d_fire ''expired'' Undefined Undefined s \<and>
   (\<exists>n \<le> length (listeners s ''expired'').
      trace (snd (run_timer ExpiredTick s)) =
        trace s @ Broadcast ''salte-auth-expired'' Undefined Undefined #
          map (\<lambda>l. Called l Undefined Undefined) (take n (listeners s ''expired'')))"
proof (intro conjI impI)
  assume "timers s i = Some (d, act)"
  then show "fire_timer i s = run_timer act (s\<lparr> timers := (timers s)(i := None) \<rparr>)"
    by (simp add: fire_timer_def)
next
  assume a: "autoRefresh (cfg s) \<and> p_refresh s = None \<and> p_login s = None \<and> queue s = []"
  then show "fst (run_timer RefreshTick s) = None"
    using refresh_tick_starts_flow(1)[of s] by simp
  from a show "trace (snd (run_timer RefreshTick s)) = trace s @
        [CreateIframe (next_promise s) (LoginUrl True (uuid s) (Suc (uuid s))) (Some False) (Some 3000)]"
    using refresh_tick_starts_flow(2)[of s] by simp
  from a show "\<exists>s' x. drain 16 (env_settle (next_promise s) (Failed e) (snd (run_timer RefreshTick s))) = Some s' \<and>
         p_refresh s' = None \<and> p_login s' = None \<and> last (trace s') = ConsoleError x \<and>
         pstates s' (next_promise s + 5) = Fulfilled Undefined"
    using refresh_tick_failure_reported[of s e] by simp
next
  assume n: "\<not> autoRefresh (cfg s)"
  then show r: "run_timer RefreshTick s = d_fire ''refresh'' Undefined Undefined s" by simp
  show "sched_only s (snd (run_timer RefreshTick s))"
    unfolding r by (rule sched_only_d_fire)
  show "filter is_flow (trace (snd (run_timer RefreshTick s))) = filter is_flow (trace s)"
    unfolding r by (rule d_fire_no_flow)
  show "\<exists>n \<le> length (listeners s ''refresh'').
         trace (snd (run_timer RefreshTick s)) =
           trace s @ Broadcast ''salte-auth-refresh'' Undefined Undefined #
             map (\<lambda>l. Called l Undefined Undefined) (take n (listeners s ''refresh''))"
    unfolding r using d_fire_trace[of s "''refresh''" Undefined Undefined] by simp
next
  show "run_timer ExpiredTick s = d_fire ''expired'' Undefined Undefined s" by simp
  show "\<exists>n \<le> length (listeners s ''expired'').
      trace (snd (run_timer ExpiredTick s)) =
        trace s @ Broadcast ''salte-auth-expired'' Undefined Undefined #
          map (\<lambda>l. Called l Undefined Undefined) (take n (listeners s ''expired''))"
    using d_fire_trace[of s "''expired''" Undefined Undefined] by simp
qed

lemma demo_armed_facts:
  "timers demo_armed 0 = Some (60000, RefreshTick)" "autoRefresh (cfg demo_armed)"
  "p_refresh demo_armed = None" "p_login demo_armed = None" "queue demo_armed = []"
  "listeners demo_armed ''refresh'' = []" "trace demo_armed = []"
  by (simp_all add: demo_armed_def demo_logged_in_def demo_state_def init_state_def demo_config_def)

lemma demo_notice_facts:
  "\<not> autoRefresh (cfg demo_notice)" "listeners demo_notice ''refresh'' = []" "trace demo_notice = []"
  by (simp_all add: demo_notice_def demo_armed_def demo_logged_in_def demo_state_def init_state_def
        demo_config_def)

theorem refresh_timer_callback_witness:
  "fire_timer 0 demo_armed = run_timer RefreshTick (demo_armed\<lparr> timers := (timers demo_armed)(0 := None) \<rparr>) \<and>
   fst (run_timer RefreshTick demo_armed) = None \<and>
   (\<exists>s' x. drain 16 (env_settle (next_promise demo_armed) (Failed (Err (TransportError 1)))
              (snd (run_timer RefreshTick demo_armed))) = Some s' \<and>
         p_refresh s' = None \<and> p_login s' = None \<and> last (trace s') = ConsoleError x \<and>
         pstates s' (next_promise demo_armed + 5) = Fulfilled Undefined) \<and>
   run_timer RefreshTick demo_notice = d_fire ''refresh'' Undefined Undefined demo_notice \<and>
   trace (snd (run_timer RefreshTick demo_notice)) = [Broadcast ''salte-auth-refresh'' Undefined Undefined]"
  using refresh_timer_callback [where s = demo_armed and i = 0 and d = 60000 and act = RefreshTick
      and e = "Err (TransportError 1)"]
    refresh_timer_callback [where s = demo_notice]
    demo_armed_facts demo_notice_facts
  by simp

end
